theory Spec2Isabelle
  imports Main "HOL-Library.Word"
begin

unbundle bit_operations_syntax

section \<open>Consent tracking of the client API (clientapi/routing/consent\_tracking.go)\<close>

text \<open>
  A Go \<open>string\<close> and a Go \<open>[]byte\<close> are both sequences of bytes, and an Isabelle
  \<^typ>\<open>char\<close> is one byte, so both are modelled by \<^typ>\<open>string\<close>: the conversions
  \<open>[]byte(s)\<close> and \<open>string(b)\<close> are the identity, and
  \<open>fmt.Sprintf("%s", b)\<close> of a byte slice \<open>b\<close> yields the bytes of \<open>b\<close> unchanged.
\<close>

subsection \<open>The standard library: SHA-256, HMAC and hexadecimal encoding\<close>

text \<open>
  \<open>crypto/sha256\<close>, following FIPS 180-4, on 32-bit words with wrap-around addition.
\<close>

type_synonym w32 = "32 word"

type_synonym digest = "w32 \<times> w32 \<times> w32 \<times> w32 \<times> w32 \<times> w32 \<times> w32 \<times> w32"

definition rotr :: "nat \<Rightarrow> w32 \<Rightarrow> w32" where
  "rotr n x = (drop_bit n x) OR (push_bit (32 - n) x)"

definition Ch :: "w32 \<Rightarrow> w32 \<Rightarrow> w32 \<Rightarrow> w32" where
  "Ch x y z = (x AND y) XOR (NOT x AND z)"

definition Maj :: "w32 \<Rightarrow> w32 \<Rightarrow> w32 \<Rightarrow> w32" where
  "Maj x y z = (x AND y) XOR (x AND z) XOR (y AND z)"

definition bsig0 :: "w32 \<Rightarrow> w32" where
  "bsig0 x = rotr 2 x XOR rotr 13 x XOR rotr 22 x"

definition bsig1 :: "w32 \<Rightarrow> w32" where
  "bsig1 x = rotr 6 x XOR rotr 11 x XOR rotr 25 x"

definition ssig0 :: "w32 \<Rightarrow> w32" where
  "ssig0 x = rotr 7 x XOR rotr 18 x XOR drop_bit 3 x"

definition ssig1 :: "w32 \<Rightarrow> w32" where
  "ssig1 x = rotr 17 x XOR rotr 19 x XOR drop_bit 10 x"

definition sha256_K :: "w32 list" where
  "sha256_K =
    [1116352408, 1899447441, 3049323471, 3921009573, 961987163, 1508970993, 2453635748, 2870763221,
     3624381080, 310598401, 607225278, 1426881987, 1925078388, 2162078206, 2614888103, 3248222580,
     3835390401, 4022224774, 264347078, 604807628, 770255983, 1249150122, 1555081692, 1996064986,
     2554220882, 2821834349, 2952996808, 3210313671, 3336571891, 3584528711, 113926993, 338241895,
     666307205, 773529912, 1294757372, 1396182291, 1695183700, 1986661051, 2177026350, 2456956037,
     2730485921, 2820302411, 3259730800, 3345764771, 3516065817, 3600352804, 4094571909, 275423344,
     430227734, 506948616, 659060556, 883997877, 958139571, 1322822218, 1537002063, 1747873779,
     1955562222, 2024104815, 2227730452, 2361852424, 2428436474, 2756734187, 3204031479, 3329325298]"

definition sha256_init :: digest where
  "sha256_init =
    (1779033703, 3144134277, 1013904242, 2773480762, 1359893119, 2600822924, 528734635, 1541459225)"

text \<open>Big-endian conversions between bytes and words.\<close>

definition be_word :: "string \<Rightarrow> w32" where
  "be_word bs = foldl (\<lambda>w c. push_bit 8 w OR of_char c) 0 bs"

definition word_bytes :: "w32 \<Rightarrow> string" where
  "word_bytes w =
     [char_of (uint (drop_bit 24 w)), char_of (uint (drop_bit 16 w)),
      char_of (uint (drop_bit 8 w)), char_of (uint w)]"

definition be64 :: "nat \<Rightarrow> string" where
  "be64 n = map (\<lambda>i. char_of (int n div 256 ^ (7 - i))) [0..<8]"

fun chunks :: "nat \<Rightarrow> nat \<Rightarrow> 'a list \<Rightarrow> 'a list list" where
  "chunks 0 k xs = []"
| "chunks (Suc n) k xs = take k xs # chunks n k (drop k xs)"

text \<open>Padding: a one bit, zeros up to 56 modulo 64, and the length in bits on 64 bits.\<close>

definition sha256_pad :: "string \<Rightarrow> string" where
  "sha256_pad m =
     m @ [char_of (0x80::nat)] @ replicate ((119 - length m mod 64) mod 64) (char_of (0::nat))
       @ be64 (8 * length m)"

fun schedule :: "nat \<Rightarrow> w32 list \<Rightarrow> w32 list" where
  "schedule 0 ws = ws"
| "schedule (Suc n) ws =
     (let t = length ws
      in schedule n
           (ws @ [ssig1 (ws ! (t - 2)) + ws ! (t - 7) + ssig0 (ws ! (t - 15)) + ws ! (t - 16)]))"

fun sha256_round :: "digest \<Rightarrow> w32 \<times> w32 \<Rightarrow> digest" where
  "sha256_round (a, b, c, d, e, f, g, h) (k, w) =
     (let t1 = h + bsig1 e + Ch e f g + k + w;
          t2 = bsig0 a + Maj a b c
      in (t1 + t2, a, b, c, d + t1, e, f, g))"

fun digest_add :: "digest \<Rightarrow> digest \<Rightarrow> digest" where
  "digest_add (a, b, c, d, e, f, g, h) (a', b', c', d', e', f', g', h') =
     (a + a', b + b', c + c', d + d', e + e', f + f', g + g', h + h')"

definition sha256_block :: "digest \<Rightarrow> string \<Rightarrow> digest" where
  "sha256_block H blk =
     digest_add H (foldl sha256_round H (zip sha256_K (schedule 48 (map be_word (chunks 16 4 blk)))))"

fun digest_bytes :: "digest \<Rightarrow> string" where
  "digest_bytes (a, b, c, d, e, f, g, h) =
     word_bytes a @ word_bytes b @ word_bytes c @ word_bytes d
       @ word_bytes e @ word_bytes f @ word_bytes g @ word_bytes h"

definition sha256 :: "string \<Rightarrow> string" where
  "sha256 m =
     (let p = sha256_pad m
      in digest_bytes (foldl sha256_block sha256_init (chunks (length p div 64) 64 p)))"

text \<open>
  \<open>crypto/hmac\<close> over SHA-256 (RFC 2104): \<open>hmac.New(sha256.New, key)\<close>, one
  \<open>Write\<close> of the message, then \<open>Sum(nil)\<close>. A key longer than the block size of 64
  bytes is hashed first; the key is then filled with zero bytes up to the block size.
  \<open>Write\<close> of a hash never returns an error.
\<close>

definition xor_byte :: "nat \<Rightarrow> char \<Rightarrow> char" where
  "xor_byte p c = char_of ((of_char c :: nat) XOR p)"

definition hmac_key :: "string \<Rightarrow> string" where
  "hmac_key key =
     (let k = (if length key > 64 then sha256 key else key)
      in k @ replicate (64 - length k) (char_of (0::nat)))"

definition hmac_sha256 :: "string \<Rightarrow> string \<Rightarrow> string" where
  "hmac_sha256 key msg =
     (let k = hmac_key key
      in sha256 (map (xor_byte 0x5c) k @ sha256 (map (xor_byte 0x36) k @ msg)))"

text \<open>\<open>hmac.Equal\<close>: true exactly when both slices have the same length and contents.\<close>

definition hmac_Equal :: "string \<Rightarrow> string \<Rightarrow> bool" where
  "hmac_Equal mac1 mac2 = (mac1 = mac2)"

text \<open>
  \<open>encoding/hex\<close>: \<open>EncodeToString\<close> writes two lowercase digits per byte;
  \<open>DecodeString\<close> accepts digits of either case and fails on the first byte that is not
  a hexadecimal digit, or on an odd length.
\<close>

datatype error = InvalidByteError char | ErrLength | Failure string

definition hextable :: string where
  "hextable = ''0123456789abcdef''"

definition EncodeToString :: "string \<Rightarrow> string" where
  "EncodeToString src =
     concat (map (\<lambda>c. [hextable ! ((of_char c :: nat) div 16), hextable ! ((of_char c :: nat) mod 16)]) src)"

definition fromHexChar :: "char \<Rightarrow> nat option" where
  "fromHexChar c =
     (let n = (of_char c :: nat)
      in if 48 \<le> n \<and> n \<le> 57 then Some (n - 48)
         else if 97 \<le> n \<and> n \<le> 102 then Some (n - 97 + 10)
         else if 65 \<le> n \<and> n \<le> 70 then Some (n - 65 + 10)
         else None)"

fun DecodeString :: "string \<Rightarrow> error + string" where
  "DecodeString [] = Inr []"
| "DecodeString [p] =
     (case fromHexChar p of None \<Rightarrow> Inl (InvalidByteError p) | Some a \<Rightarrow> Inl ErrLength)"
| "DecodeString (p # q # rest) =
     (case fromHexChar p of
        None \<Rightarrow> Inl (InvalidByteError p)
      | Some a \<Rightarrow>
          (case fromHexChar q of
             None \<Rightarrow> Inl (InvalidByteError q)
           | Some b \<Rightarrow>
               (case DecodeString rest of
                  Inl err \<Rightarrow> Inl err
                | Inr bs \<Rightarrow> Inr (char_of (a * 16 + b) # bs))))"

subsection \<open>Configuration and data of the consent handler\<close>

text \<open>
  The fields of \<open>config.ClientAPI\<close> that this file reads, as one record:
  \<open>ConsentVersion\<close> is \<open>cfg.Matrix.UserConsentOptions.Version\<close>,
  \<open>FormSecret\<close> is \<open>cfg.Matrix.UserConsentOptions.FormSecret\<close>,
  \<open>BaseURL\<close> is \<open>cfg.Matrix.UserConsentOptions.BaseURL\<close>,
  \<open>ServerName\<close> is \<open>cfg.Matrix.ServerName\<close>,
  \<open>ServerNoticesLocalPart\<close> is \<open>cfg.Matrix.ServerNotices.LocalPart\<close> and
  \<open>ServerNoticeMsgType\<close> is \<open>cfg.Matrix.UserConsentOptions.ServerNoticeContent.MsgType\<close>.
\<close>

record ClientAPI =
  ConsentVersion :: string
  FormSecret :: string
  BaseURL :: string
  ServerName :: string
  ServerNoticesLocalPart :: string
  ServerNoticeMsgType :: string

record constentTemplateData =
  User :: string
  Version :: string
  UserHMAC :: string
  HasConsented :: bool
  PublicVersion :: bool

record UpdatePolicyVersionRequest =
  PolicyVersion :: string
  LocalPart :: string
  ServerNoticeUpdate :: bool

record sendServerNoticeRequest =
  UserID :: string
  MsgType :: string
  Body :: string

text \<open>
  Of a \<open>http.Request\<close> the handler reads the method and the form values; a form value
  that is absent reads as the empty string.
\<close>

record Request =
  Method :: string
  FormValue :: "string \<Rightarrow> string"

text \<open>
  Of a \<open>util.JSONResponse\<close> the model keeps the status code; the handler returns a
  pointer to one, or \<open>nil\<close>, modelled by \<open>None\<close>.

  Modelled from the spec: \<open>jsonerror.InternalServerError\<close>, which is not in this file;
  the specification gives the internal failure the status 500 (section 6).
\<close>

datatype JSONResponse = JSONResponse (Code: nat)

definition internalError :: JSONResponse where
  "internalError = JSONResponse 500"

subsection \<open>Link signing and verification\<close>

text \<open>The local variable \<open>userMAC\<close> of \<open>buildConsentURI\<close>: the result of \<open>mac.Sum(nil)\<close>.\<close>

definition userMAC :: "ClientAPI \<Rightarrow> string \<Rightarrow> string" where
  "userMAC cfgClient userID = hmac_sha256 (FormSecret cfgClient) userID"

text \<open>
  \<open>buildConsentURI\<close> formats \<open>userMAC\<close>, a byte slice, with the verb \<open>%s\<close>: the
  bytes of the MAC go into the link as they are. A pair models Go's two results.
\<close>

definition buildConsentURI :: "ClientAPI \<Rightarrow> string \<Rightarrow> string \<times> error option" where
  "buildConsentURI cfgClient userID =
     (BaseURL cfgClient @ ''/_matrix/client/consent?u='' @ userID @ ''&h=''
        @ userMAC cfgClient userID @ ''&v='' @ ConsentVersion cfgClient, None)"

definition validHMAC :: "string \<Rightarrow> string \<Rightarrow> string \<Rightarrow> bool \<times> error option" where
  "validHMAC username userHMAC secret =
     (let expectedMAC = hmac_sha256 secret username
      in case DecodeString userHMAC of
           Inl err \<Rightarrow> (False, Some err)
         | Inr decoded \<Rightarrow> (hmac_Equal decoded expectedMAC, None))"

subsection \<open>Collaborators and the trace of their calls\<close>

text \<open>
  The handler and the dispatcher reach the user API, the templates, the response writer,
  the server notice sender and the logger through interfaces. Each collaborator is a
  function on a world \<open>'w\<close> of its own; every call is recorded, with its arguments and
  its result, in the trace \<open>calls\<close>. The code of none of them is in this file, so they
  are parameters of the model, and what is proved holds for every behaviour of theirs:
  \<^item> \<open>SplitID\<close> is \<open>gomatrixserverlib.SplitID\<close>, a pure function;
  \<^item> \<open>QueryPolicyVersion\<close>, \<open>PerformUpdatePolicyVersion\<close> and \<open>QueryOutdatedPolicy\<close>
    are the methods of \<open>userapi.UserInternalAPI\<close>, the consent state store; a query
    returns the field of its response that the caller reads;
  \<^item> \<open>ExecuteTemplate\<close> is \<open>consentCfg.Templates.ExecuteTemplate\<close> on the response
    writer and \<open>Write\<close> is \<open>writer.Write\<close>;
  \<^item> \<open>TextExecuteTemplate\<close> is \<open>consentOpts.TextTemplates.ExecuteTemplate\<close> on a new
    buffer, returning the text of the buffer;
  \<^item> \<open>sendServerNotice\<close> is the function of that name of this package.
  The calls of \<open>logrus\<close> are recorded with their message; \<open>logrus_Infof\<close> also with
  its number (the field \<open>count\<close>, or the argument of \<open>%d\<close>).
\<close>

datatype call =
    QueryPolicyVersion_call string "error + string"
  | PerformUpdatePolicyVersion_call UpdatePolicyVersionRequest "error option"
  | QueryOutdatedPolicy_call string "error + string list"
  | ExecuteTemplate_call string constentTemplateData "error option"
  | Write_call string "error option"
  | TextExecuteTemplate_call string "string \<rightharpoonup> string" "error + string"
  | sendServerNotice_call sendServerNoticeRequest "error option"
  | logrus_Error string
  | logrus_Infof string nat

record 'w collaborators =
  SplitID :: "char \<Rightarrow> string \<Rightarrow> error + string \<times> string"
  QueryPolicyVersion :: "string \<Rightarrow> 'w \<Rightarrow> (error + string) \<times> 'w"
  PerformUpdatePolicyVersion :: "UpdatePolicyVersionRequest \<Rightarrow> 'w \<Rightarrow> error option \<times> 'w"
  QueryOutdatedPolicy :: "string \<Rightarrow> 'w \<Rightarrow> (error + string list) \<times> 'w"
  ExecuteTemplate :: "string \<Rightarrow> constentTemplateData \<Rightarrow> 'w \<Rightarrow> error option \<times> 'w"
  Write :: "string \<Rightarrow> 'w \<Rightarrow> error option \<times> 'w"
  TextExecuteTemplate :: "string \<Rightarrow> (string \<rightharpoonup> string) \<Rightarrow> 'w \<Rightarrow> (error + string) \<times> 'w"
  sendServerNotice :: "sendServerNoticeRequest \<Rightarrow> 'w \<Rightarrow> error option \<times> 'w"

record 'w st =
  world :: 'w
  calls :: "call list"

definition init :: "'w \<Rightarrow> 'w st" where
  "init w = \<lparr>world = w, calls = []\<rparr>"

definition invoke :: "('w \<Rightarrow> 'r \<times> 'w) \<Rightarrow> ('r \<Rightarrow> call) \<Rightarrow> 'w st \<Rightarrow> 'r \<times> 'w st" where
  "invoke f ev s =
     (case f (world s) of (r, w) \<Rightarrow> (r, \<lparr>world = w, calls = calls s @ [ev r]\<rparr>))"

definition log :: "call \<Rightarrow> 'w st \<Rightarrow> 'w st" where
  "log ev s = \<lparr>world = world s, calls = calls s @ [ev]\<rparr>"

subsection \<open>The handler \<open>consent\<close>\<close>

definition consent_get ::
  "'w collaborators \<Rightarrow> ClientAPI \<Rightarrow> constentTemplateData \<Rightarrow> 'w st \<Rightarrow> JSONResponse option \<times> 'w st" where
  "consent_get userAPI cfg data0 s0 =
     (let data = data0\<lparr>PublicVersion := (User data0 = '''' \<or> UserHMAC data0 = '''' \<or> Version data0 = '''')\<rparr>
      in case (if \<not> PublicVersion data then
                 (case SplitID userAPI CHR ''@'' (User data) of
                    Inl err \<Rightarrow>
                      (Inl internalError, log (logrus_Error ''unable to print consent template'') s0)
                  | Inr (localPart, domain) \<Rightarrow>
                      (case invoke (QueryPolicyVersion userAPI localPart)
                                   (QueryPolicyVersion_call localPart) s0 of
                         (Inl err, s1) \<Rightarrow>
                           (Inl internalError, log (logrus_Error ''unable to print consent template'') s1)
                       | (Inr res, s1) \<Rightarrow>
                           (Inr (data\<lparr>HasConsented := (res = ConsentVersion cfg)\<rparr>), s1)))
               else (Inr data, s0)) of
           (Inl response, s1) \<Rightarrow> (Some response, s1)
         | (Inr data', s1) \<Rightarrow>
             (case invoke (ExecuteTemplate userAPI (ConsentVersion cfg @ ''.gohtml'') data')
                          (ExecuteTemplate_call (ConsentVersion cfg @ ''.gohtml'') data') s1 of
                (Some err, s2) \<Rightarrow> (None, log (logrus_Error ''unable to print consent template'') s2)
              | (None, s2) \<Rightarrow> (None, s2)))"

definition consent_post ::
  "'w collaborators \<Rightarrow> ClientAPI \<Rightarrow> constentTemplateData \<Rightarrow> 'w st \<Rightarrow> JSONResponse option \<times> 'w st" where
  "consent_post userAPI cfg data s0 =
     (case SplitID userAPI CHR ''@'' (User data) of
        Inl err \<Rightarrow> (Some internalError, log (logrus_Error ''unable to split username'') s0)
      | Inr (localPart, domain) \<Rightarrow>
          (case validHMAC (User data) (UserHMAC data) (FormSecret cfg) of
             (ok, err) \<Rightarrow>
               if err \<noteq> None \<or> \<not> ok then
                 (case invoke (Write userAPI ''invalid HMAC provided'')
                              (Write_call ''invalid HMAC provided'') s0 of
                    (Some err', s1) \<Rightarrow> (Some internalError, s1)
                  | (None, s1) \<Rightarrow> (Some internalError, s1))
               else
                 (let req = \<lparr>PolicyVersion = Version data, LocalPart = localPart,
                              ServerNoticeUpdate = False\<rparr>
                  in case invoke (PerformUpdatePolicyVersion userAPI req)
                                 (PerformUpdatePolicyVersion_call req) s0 of
                       (Some err', s1) \<Rightarrow>
                         (case invoke (Write userAPI ''unable to update database'')
                                      (Write_call ''unable to update database'') s1 of
                            (Some err'', s2) \<Rightarrow>
                              (Some internalError, log (logrus_Error ''unable to write to database'') s2)
                          | (None, s2) \<Rightarrow> (Some internalError, s2))
                     | (None, s1) \<Rightarrow>
                         (let data' = data\<lparr>PublicVersion := False, HasConsented := True\<rparr>
                          in case invoke (ExecuteTemplate userAPI (ConsentVersion cfg @ ''.gohtml'') data')
                                         (ExecuteTemplate_call (ConsentVersion cfg @ ''.gohtml'') data') s1 of
                               (Some err'', s2) \<Rightarrow>
                                 (Some internalError,
                                  log (logrus_Error ''unable to print consent template'') s2)
                             | (None, s2) \<Rightarrow> (None, s2)))))"

definition consent ::
  "'w collaborators \<Rightarrow> ClientAPI \<Rightarrow> Request \<Rightarrow> 'w st \<Rightarrow> JSONResponse option \<times> 'w st" where
  "consent userAPI cfg req s =
     (let data = \<lparr>User = FormValue req ''u'', Version = FormValue req ''v'',
                   UserHMAC = FormValue req ''h'', HasConsented = False, PublicVersion = False\<rparr>
      in if Method req = ''GET'' then consent_get userAPI cfg data s
         else if Method req = ''POST'' then consent_post userAPI cfg data s
         else (Some (JSONResponse 200), s))"

subsection \<open>The dispatcher \<open>sendServerNoticeForConsent\<close>\<close>

text \<open>
  The variables of the loop: the map \<open>data\<close>, the counter \<open>sentMessages\<close> (a Go
  \<open>int\<close>, which a list of users held in memory cannot overflow) and the state of the
  collaborators. The body of the loop returns the variables after one iteration; every
  \<open>continue\<close> of the source is a branch that returns them.
\<close>

record 'w vars =
  data :: "string \<rightharpoonup> string"
  sentMessages :: nat
  st :: "'w st"

definition notice_user :: "'w collaborators \<Rightarrow> ClientAPI \<Rightarrow> string \<Rightarrow> 'w vars \<Rightarrow> 'w vars" where
  "notice_user userAPI cfgClient localpart v =
     (if localpart = ServerNoticesLocalPart cfgClient then v
      else
        (let userID = ''@'' @ localpart @ '':'' @ ServerName cfgClient
         in case buildConsentURI cfgClient userID of
              (uri, err) \<Rightarrow>
                (let v1 = v\<lparr>data := (data v)(''ConsentURL'' \<mapsto> uri)\<rparr>
                 in if err \<noteq> None then
                      v1\<lparr>st := log (logrus_Error ''unable to construct consentURI'') (st v1)\<rparr>
                    else
                      (case invoke (TextExecuteTemplate userAPI ''serverNoticeTemplate'' (data v1))
                                   (TextExecuteTemplate_call ''serverNoticeTemplate'' (data v1)) (st v1) of
                         (Inl err', s1) \<Rightarrow>
                           v1\<lparr>st := log (logrus_Error ''unable to execute serverNoticeTemplate'') s1\<rparr>
                       | (Inr msgBody, s1) \<Rightarrow>
                           (let req = \<lparr>UserID = userID, MsgType = ServerNoticeMsgType cfgClient,
                                        Body = msgBody\<rparr>
                            in case invoke (sendServerNotice userAPI req) (sendServerNotice_call req) s1 of
                                 (Some err', s2) \<Rightarrow>
                                   v1\<lparr>st := log (logrus_Error
                                     ''failed to send server notice for consent to user'') s2\<rparr>
                               | (None, s2) \<Rightarrow>
                                   (let v2 = v1\<lparr>sentMessages := sentMessages v1 + 1\<rparr>;
                                        upd = \<lparr>PolicyVersion = ConsentVersion cfgClient,
                                               LocalPart = userID, ServerNoticeUpdate = True\<rparr>
                                    in case invoke (PerformUpdatePolicyVersion userAPI upd)
                                                   (PerformUpdatePolicyVersion_call upd) s2 of
                                         (Some err', s3) \<Rightarrow>
                                           v2\<lparr>st := log (logrus_Error
                                             ''failed to update policy version'') s3\<rparr>
                                       | (None, s3) \<Rightarrow> v2\<lparr>st := s3\<rparr>))))))"

fun notice_loop :: "'w collaborators \<Rightarrow> ClientAPI \<Rightarrow> string list \<Rightarrow> 'w vars \<Rightarrow> 'w vars" where
  "notice_loop userAPI cfgClient [] v = v"
| "notice_loop userAPI cfgClient (userID # rest) v =
     notice_loop userAPI cfgClient rest (notice_user userAPI cfgClient userID v)"

definition sendServerNoticeForConsent :: "'w collaborators \<Rightarrow> ClientAPI \<Rightarrow> 'w st \<Rightarrow> 'w st" where
  "sendServerNoticeForConsent userAPI cfgClient s0 =
     (case invoke (QueryOutdatedPolicy userAPI (ConsentVersion cfgClient))
                  (QueryOutdatedPolicy_call (ConsentVersion cfgClient)) s0 of
        (Inl err, s1) \<Rightarrow>
          log (logrus_Error ''unable to fetch users with outdated consent policy'') s1
      | (Inr OutdatedUsers, s1) \<Rightarrow>
          (let s2 = (if length OutdatedUsers > 0
                     then log (logrus_Infof
                       ''Sending server notice to users who have not yet accepted the policy''
                       (length OutdatedUsers)) s1
                     else s1);
               v = notice_loop userAPI cfgClient OutdatedUsers
                     \<lparr>data = Map.empty, sentMessages = 0, st = s2\<rparr>
           in if sentMessages v > 0
              then log (logrus_Infof ''Sent messages to %d users'' (sentMessages v)) (st v)
              else st v))"

subsection \<open>Projections of the trace\<close>

fun store_call :: "call \<Rightarrow> call list" where
  "store_call (QueryPolicyVersion_call localPart r) = [QueryPolicyVersion_call localPart r]"
| "store_call (PerformUpdatePolicyVersion_call req r) = [PerformUpdatePolicyVersion_call req r]"
| "store_call (QueryOutdatedPolicy_call version r) = [QueryOutdatedPolicy_call version r]"
| "store_call c = []"

definition store_calls :: "call list \<Rightarrow> call list" where
  "store_calls tr = concat (map store_call tr)"

fun rendered :: "call \<Rightarrow> constentTemplateData list" where
  "rendered (ExecuteTemplate_call name d r) = [d]"
| "rendered c = []"

definition renders :: "call list \<Rightarrow> constentTemplateData list" where
  "renders tr = concat (map rendered tr)"

fun hmac_rejection :: "call \<Rightarrow> bool" where
  "hmac_rejection (Write_call body r) = (body = ''invalid HMAC provided'')"
| "hmac_rejection c = False"

fun update_request :: "call \<Rightarrow> UpdatePolicyVersionRequest list" where
  "update_request (PerformUpdatePolicyVersion_call req r) = [req]"
| "update_request c = []"

definition updates :: "call list \<Rightarrow> UpdatePolicyVersionRequest list" where
  "updates tr = concat (map update_request tr)"

text \<open>The updates that the store accepted.\<close>

fun recorded_request :: "call \<Rightarrow> UpdatePolicyVersionRequest list" where
  "recorded_request (PerformUpdatePolicyVersion_call req None) = [req]"
| "recorded_request c = []"

definition recorded :: "call list \<Rightarrow> UpdatePolicyVersionRequest list" where
  "recorded tr = concat (map recorded_request tr)"

text \<open>The users to whom the notice was delivered: the sends that returned no error.\<close>

fun delivery :: "call \<Rightarrow> string list" where
  "delivery (sendServerNotice_call req None) = [UserID req]"
| "delivery c = []"

definition delivered :: "call list \<Rightarrow> string list" where
  "delivered tr = concat (map delivery tr)"

text \<open>The counts that the dispatcher reports after the loop.\<close>

fun sent_report :: "call \<Rightarrow> nat list" where
  "sent_report (logrus_Infof msg n) = (if msg = ''Sent messages to %d users'' then [n] else [])"
| "sent_report c = []"

definition reported :: "call list \<Rightarrow> nat list" where
  "reported tr = concat (map sent_report tr)"

text \<open>The consent links for which the rendering of a notice was started.\<close>

fun attempt :: "call \<Rightarrow> string option list" where
  "attempt (TextExecuteTemplate_call name d r) = [d ''ConsentURL'']"
| "attempt c = []"

definition attempted :: "call list \<Rightarrow> string option list" where
  "attempted tr = concat (map attempt tr)"

text \<open>
  \<open>delivery_recorded version tr\<close>: in the trace \<open>tr\<close> every delivered notice is
  followed at once by one update of the store that carries \<open>version\<close> and the flag
  \<open>ServerNoticeUpdate\<close>, and the store is updated nowhere else; so a send that failed
  is followed by no update.
\<close>

fun delivery_recorded :: "string \<Rightarrow> call list \<Rightarrow> bool" where
  "delivery_recorded version [] = True"
| "delivery_recorded version (sendServerNotice_call req None # PerformUpdatePolicyVersion_call upd r # tr) =
     (PolicyVersion upd = version \<and> ServerNoticeUpdate upd \<and> delivery_recorded version tr)"
| "delivery_recorded version (sendServerNotice_call req None # tr) = False"
| "delivery_recorded version (PerformUpdatePolicyVersion_call upd r # tr) = False"
| "delivery_recorded version (c # tr) = delivery_recorded version tr"

text \<open>The calls that were added to the trace between two states of the loop.\<close>

definition new_calls :: "'w vars \<Rightarrow> 'w vars \<Rightarrow> call list" where
  "new_calls v v' = drop (length (calls (st v))) (calls (st v'))"

subsection \<open>Concrete inputs\<close>

definition example_cfg :: ClientAPI where
  "example_cfg =
     \<lparr>ConsentVersion = ''2'', FormSecret = ''s3cr3t'', BaseURL = ''https://example.org'',
      ServerName = ''example.org'', ServerNoticesLocalPart = ''_server'',
      ServerNoticeMsgType = ''m.text''\<rparr>"

definition request :: "string \<Rightarrow> string \<Rightarrow> string \<Rightarrow> string \<Rightarrow> Request" where
  "request m u v h =
     \<lparr>Method = m,
      FormValue = (\<lambda>k. if k = ''u'' then u else if k = ''v'' then v else if k = ''h'' then h else '''')\<rparr>"

text \<open>
  Modelled from the spec: the collaborators, whose code is not in this file. The consent
  state store of section 6 keeps the accepted version of each user
  (\<open>queryAcceptedVersion\<close>, \<open>updateAcceptedVersion\<close>, \<open>listOutdated\<close>: a user is
  outdated when the recorded version differs from the current one, and a record is created
  by its first write); an identity is \<open>@localPart:serverName\<close>. The example world says
  which calls fail: every update when \<open>update_fails\<close>, the sends to the users in
  \<open>unreachable\<close>.
\<close>

record example_world =
  accepted :: "(string \<times> string) list"
  update_fails :: bool
  unreachable :: "string list"
  written :: string

fun example_SplitID :: "char \<Rightarrow> string \<Rightarrow> error + string \<times> string" where
  "example_SplitID sigil [] = Inl (Failure ''invalid ID'')"
| "example_SplitID sigil (c # cs) =
     (if c = sigil \<and> CHR '':'' \<in> set cs
      then Inr (takeWhile (\<lambda>x. x \<noteq> CHR '':'') cs, tl (dropWhile (\<lambda>x. x \<noteq> CHR '':'') cs))
      else Inl (Failure ''invalid ID''))"

definition example_api :: "example_world collaborators" where
  "example_api =
     \<lparr>SplitID = example_SplitID,
      QueryPolicyVersion = (\<lambda>localPart w.
        (case map_of (accepted w) localPart of
           None \<Rightarrow> Inl (Failure ''unknown account'')
         | Some version \<Rightarrow> Inr version, w)),
      PerformUpdatePolicyVersion = (\<lambda>req w.
        if update_fails w then (Some (Failure ''store unavailable''), w)
        else (None, w\<lparr>accepted := (LocalPart req, PolicyVersion req) # accepted w\<rparr>)),
      QueryOutdatedPolicy = (\<lambda>version w.
        (Inr (filter (\<lambda>u. map_of (accepted w) u \<noteq> Some version) (remdups (map fst (accepted w)))), w)),
      ExecuteTemplate = (\<lambda>name d w. (None, w\<lparr>written := written w @ name\<rparr>)),
      Write = (\<lambda>body w. (None, w\<lparr>written := written w @ body\<rparr>)),
      TextExecuteTemplate = (\<lambda>name d w.
        (case d ''ConsentURL'' of
           None \<Rightarrow> Inl (Failure ''no consent link'')
         | Some url \<Rightarrow> Inr url, w)),
      sendServerNotice = (\<lambda>req w.
        (if UserID req \<in> set (unreachable w) then Some (Failure ''unreachable'') else None, w))\<rparr>"

definition example_world :: "(string \<times> string) list \<Rightarrow> bool \<Rightarrow> string list \<Rightarrow> example_world" where
  "example_world acc uf unr = \<lparr>accepted = acc, update_fails = uf, unreachable = unr, written = ''''\<rparr>"

text \<open>A user API whose listing of the outdated users fails.\<close>

definition failing_api :: "example_world collaborators" where
  "failing_api =
     example_api\<lparr>QueryOutdatedPolicy := (\<lambda>version w. (Inl (Failure ''store unavailable''), w))\<rparr>"


section \<open>Properties\<close>

subsection \<open>The standard library functions\<close>

text \<open>The model of SHA-256 on the first test vector of FIPS 180-4.\<close>

lemma sha256_abc:
  "EncodeToString (sha256 ''abc'') =
     ''ba7816bf8f01cfea414140de5dae2223b00361a396177a9cb410ff61f20015ad''"
  by code_simp

lemma length_digest_bytes: "length (digest_bytes d) = 32"
  by (cases d rule: digest_bytes.cases) (simp add: word_bytes_def)

lemma length_sha256: "length (sha256 m) = 32"
  by (simp add: sha256_def Let_def length_digest_bytes)

lemma length_hmac_sha256: "length (hmac_sha256 key msg) = 32"
  by (simp add: hmac_sha256_def Let_def length_sha256)

lemma length_EncodeToString: "length (EncodeToString bs) = 2 * length bs"
  by (induction bs) (simp_all add: EncodeToString_def)

lemma DecodeString_length: "DecodeString s = Inr bs \<Longrightarrow> length s = 2 * length bs"
  by (induction s arbitrary: bs rule: DecodeString.induct)
     (auto split: option.splits sum.splits)

lemma fromHexChar_hextable: "n < 16 \<Longrightarrow> fromHexChar (hextable ! n) = Some n"
proof -
  assume n: "n < 16"
  have "list_all (\<lambda>n. fromHexChar (hextable ! n) = Some n) [0..<16]"
    by code_simp
  with n show ?thesis
    by (simp add: list_all_iff)
qed

lemma DecodeString_EncodeToString: "DecodeString (EncodeToString bs) = Inr bs"
proof (induction bs)
  case Nil
  then show ?case by (simp add: EncodeToString_def)
next
  case (Cons c bs)
  have lt: "(of_char c :: nat) div 16 < 16"
    using nat_of_char_less_256 [of c] by (simp add: less_mult_imp_div_less)
  have "char_of ((of_char c :: nat) div 16 * 16 + of_char c mod 16) = c"
    by simp
  with Cons lt show ?case
    by (simp add: EncodeToString_def fromHexChar_hextable)
qed

subsection \<open>Signing and verification\<close>

text \<open>
  The 32 bytes of a MAC never verify as their own signature: as hexadecimal text they
  decode, if at all, to 16 bytes.
\<close>

lemma validHMAC_raw_mac:
  "validHMAC username (hmac_sha256 secret username) secret \<noteq> (True, None)"
proof
  assume "validHMAC username (hmac_sha256 secret username) secret = (True, None)"
  then obtain decoded where d: "DecodeString (hmac_sha256 secret username) = Inr decoded"
    and e: "decoded = hmac_sha256 secret username"
    by (auto simp: validHMAC_def Let_def hmac_Equal_def split: sum.splits)
  from DecodeString_length [OF d] have "32 = 2 * length decoded"
    by (simp add: length_hmac_sha256)
  with e show False by (simp add: length_hmac_sha256)
qed

text \<open>The hexadecimal encoding of the MAC does verify.\<close>

lemma validHMAC_hex:
  "validHMAC username (EncodeToString (hmac_sha256 secret username)) secret = (True, None)"
  by (simp add: validHMAC_def DecodeString_EncodeToString hmac_Equal_def)

lemma validHMAC_iff:
  "validHMAC username userHMAC secret = (True, None)
     \<longleftrightarrow> DecodeString userHMAC = Inr (hmac_sha256 secret username)"
  by (auto simp: validHMAC_def hmac_Equal_def split: sum.splits)

text \<open>
  C1 (sign/verify round trip). The link built for \<open>@alice:example.org\<close> under the
  secret \<open>s3cr3t\<close> carries in its parameter \<open>h\<close> the bytes of the MAC themselves, and
  \<open>validHMAC\<close> does not accept that value for the same identity and secret.
\<close>

theorem minted_signature_not_verified:
  "fst (buildConsentURI example_cfg ''@alice:example.org'') =
     ''https://example.org/_matrix/client/consent?u=@alice:example.org&h=''
       @ userMAC example_cfg ''@alice:example.org'' @ ''&v=2''
   \<and> validHMAC ''@alice:example.org'' (userMAC example_cfg ''@alice:example.org'') ''s3cr3t''
         \<noteq> (True, None)"
proof -
  have "userMAC example_cfg ''@alice:example.org'' = hmac_sha256 ''s3cr3t'' ''@alice:example.org''"
    by (simp add: userMAC_def example_cfg_def)
  then show ?thesis
    using validHMAC_raw_mac [of "''@alice:example.org''" "''s3cr3t''"]
    by (simp add: buildConsentURI_def example_cfg_def)
qed

text \<open>
  C2 (link format). The link built for \<open>@alice:example.org\<close> under the secret
  \<open>s3cr3t\<close> is not the link whose parameter \<open>h\<close> is the hexadecimal encoding of the
  MAC: the encoding has 64 characters, the link carries the 32 bytes of the MAC.
\<close>

theorem link_does_not_hex_encode:
  "buildConsentURI example_cfg ''@alice:example.org'' \<noteq>
     (''https://example.org/_matrix/client/consent?u=@alice:example.org&h=''
        @ EncodeToString (hmac_sha256 ''s3cr3t'' ''@alice:example.org'') @ ''&v=2'', None)"
proof
  assume "buildConsentURI example_cfg ''@alice:example.org'' =
     (''https://example.org/_matrix/client/consent?u=@alice:example.org&h=''
        @ EncodeToString (hmac_sha256 ''s3cr3t'' ''@alice:example.org'') @ ''&v=2'', None)"
  then have "hmac_sha256 ''s3cr3t'' ''@alice:example.org'' @ ''&v=2''
      = EncodeToString (hmac_sha256 ''s3cr3t'' ''@alice:example.org'') @ ''&v=2''"
    by (simp add: buildConsentURI_def userMAC_def example_cfg_def)
  then have "length (hmac_sha256 ''s3cr3t'' ''@alice:example.org'')
      = length (EncodeToString (hmac_sha256 ''s3cr3t'' ''@alice:example.org''))"
    by simp
  then show False
    by (simp add: length_EncodeToString length_hmac_sha256)
qed

subsection \<open>The handler\<close>

lemma store_calls_simps [simp]:
  "store_calls [] = []"
  "store_calls (c # tr) = store_call c @ store_calls tr"
  "store_calls (tr @ tr') = store_calls tr @ store_calls tr'"
  by (simp_all add: store_calls_def)

lemma renders_simps [simp]:
  "renders [] = []"
  "renders (c # tr) = rendered c @ renders tr"
  "renders (tr @ tr') = renders tr @ renders tr'"
  by (simp_all add: renders_def)

lemma example_SplitID_bob [simp]:
  "example_SplitID CHR ''@'' ''@bob:example.org'' = Inr (''bob'', ''example.org'')"
  by simp

text \<open>
  C7 (GET public fallback). A GET request in which one of \<open>u\<close>, \<open>v\<close>, \<open>h\<close> is empty
  renders the public view (\<open>PublicVersion\<close> true, \<open>HasConsented\<close> false) and makes no
  call to the store: the only collaborator that sees the world is the template, and the
  handler returns \<open>nil\<close>.
\<close>

theorem get_public_fallback:
  assumes "Method req = ''GET''"
    and "FormValue req ''u'' = '''' \<or> FormValue req ''v'' = '''' \<or> FormValue req ''h'' = ''''"
  shows "store_calls (calls (snd (consent userAPI cfg req (init w)))) = []
    \<and> renders (calls (snd (consent userAPI cfg req (init w)))) =
        [\<lparr>User = FormValue req ''u'', Version = FormValue req ''v'', UserHMAC = FormValue req ''h'',
          HasConsented = False, PublicVersion = True\<rparr>]
    \<and> world (snd (consent userAPI cfg req (init w))) =
        snd (ExecuteTemplate userAPI (ConsentVersion cfg @ ''.gohtml'')
          \<lparr>User = FormValue req ''u'', Version = FormValue req ''v'', UserHMAC = FormValue req ''h'',
           HasConsented = False, PublicVersion = True\<rparr> w)
    \<and> fst (consent userAPI cfg req (init w)) = None"
  using assms
  by (auto simp: consent_def consent_get_def init_def invoke_def log_def Let_def
           split: prod.splits option.splits)

theorem get_public_fallback_witness:
  "Method (request ''GET'' '''' '''' '''') = ''GET''
   \<and> FormValue (request ''GET'' '''' '''' '''') ''u'' = ''''
   \<and> store_calls (calls (snd (consent example_api example_cfg (request ''GET'' '''' '''' '''')
        (init (example_world [(''bob'', ''1'')] False []))))) = []
   \<and> renders (calls (snd (consent example_api example_cfg (request ''GET'' '''' '''' '''')
        (init (example_world [(''bob'', ''1'')] False []))))) =
        [\<lparr>User = '''', Version = '''', UserHMAC = '''', HasConsented = False, PublicVersion = True\<rparr>]
   \<and> fst (consent example_api example_cfg (request ''GET'' '''' '''' '''')
        (init (example_world [(''bob'', ''1'')] False []))) = None"
  using get_public_fallback [of "request ''GET'' '''' '''' ''''" example_api example_cfg
      "example_world [(''bob'', ''1'')] False []"]
  by (simp add: request_def)

text \<open>
  C6 (GET consent decision). A GET request with \<open>u\<close>, \<open>v\<close>, \<open>h\<close> all non-empty, whose
  \<open>u\<close> parses and whose store read succeeds, reads the store exactly once, for the local
  part of \<open>u\<close>, and renders with \<open>HasConsented\<close> true exactly when the stored version
  equals the configured version (the confirmed view), and false otherwise (the prompt).
\<close>

theorem get_consent_decision:
  assumes "Method req = ''GET''"
    and "FormValue req ''u'' \<noteq> ''''" and "FormValue req ''v'' \<noteq> ''''" and "FormValue req ''h'' \<noteq> ''''"
    and "SplitID userAPI CHR ''@'' (FormValue req ''u'') = Inr (localPart, domain)"
    and "QueryPolicyVersion userAPI localPart w = (Inr stored, w')"
  shows "store_calls (calls (snd (consent userAPI cfg req (init w)))) =
          [QueryPolicyVersion_call localPart (Inr stored)]
    \<and> renders (calls (snd (consent userAPI cfg req (init w)))) =
        [\<lparr>User = FormValue req ''u'', Version = FormValue req ''v'', UserHMAC = FormValue req ''h'',
          HasConsented = (stored = ConsentVersion cfg), PublicVersion = False\<rparr>]
    \<and> fst (consent userAPI cfg req (init w)) = None"
  using assms
  by (auto simp: consent_def consent_get_def init_def invoke_def log_def Let_def
           split: prod.splits option.splits)

theorem get_consent_decision_witness:
  "Method (request ''GET'' ''@bob:example.org'' ''2'' ''abc'') = ''GET''
   \<and> SplitID example_api CHR ''@'' ''@bob:example.org'' = Inr (''bob'', ''example.org'')
   \<and> QueryPolicyVersion example_api ''bob'' (example_world [(''bob'', ''2'')] False [])
        = (Inr ''2'', example_world [(''bob'', ''2'')] False [])
   \<and> store_calls (calls (snd (consent example_api example_cfg
        (request ''GET'' ''@bob:example.org'' ''2'' ''abc'')
        (init (example_world [(''bob'', ''2'')] False []))))) = [QueryPolicyVersion_call ''bob'' (Inr ''2'')]
   \<and> renders (calls (snd (consent example_api example_cfg
        (request ''GET'' ''@bob:example.org'' ''2'' ''abc'')
        (init (example_world [(''bob'', ''2'')] False []))))) =
        [\<lparr>User = ''@bob:example.org'', Version = ''2'', UserHMAC = ''abc'',
          HasConsented = True, PublicVersion = False\<rparr>]"
proof -
  have a: "Method (request ''GET'' ''@bob:example.org'' ''2'' ''abc'') = ''GET''"
    by (simp add: request_def)
  have u: "FormValue (request ''GET'' ''@bob:example.org'' ''2'' ''abc'') ''u'' = ''@bob:example.org''"
    and v: "FormValue (request ''GET'' ''@bob:example.org'' ''2'' ''abc'') ''v'' = ''2''"
    and h: "FormValue (request ''GET'' ''@bob:example.org'' ''2'' ''abc'') ''h'' = ''abc''"
    by (simp_all add: request_def)
  have s: "SplitID example_api CHR ''@'' ''@bob:example.org'' = Inr (''bob'', ''example.org'')"
    by (simp add: example_api_def)
  have q: "QueryPolicyVersion example_api ''bob'' (example_world [(''bob'', ''2'')] False [])
        = (Inr ''2'', example_world [(''bob'', ''2'')] False [])"
    by (simp add: example_api_def example_world_def)
  have c: "ConsentVersion example_cfg = ''2''"
    by (simp add: example_cfg_def)
  from get_consent_decision [of "request ''GET'' ''@bob:example.org'' ''2'' ''abc''" example_api
      "''bob''" "''example.org''" "example_world [(''bob'', ''2'')] False []" "''2''"
      "example_world [(''bob'', ''2'')] False []" example_cfg]
  show ?thesis
    using a s q by (simp add: u v h c)
qed

text \<open>
  C4 (POST rejection). A POST request whose \<open>u\<close> parses and whose \<open>h\<close> does not decode
  to the MAC of \<open>u\<close> under the secret (it is not hexadecimal, or it decodes to other
  bytes) is answered with the internal error, status 500; the handler's only call is the
  write of the body \<open>invalid HMAC provided\<close>, so the store is neither read nor written.
\<close>

theorem post_invalid_hmac_rejected:
  assumes "Method req = ''POST''"
    and "SplitID userAPI CHR ''@'' (FormValue req ''u'') = Inr (localPart, domain)"
    and "DecodeString (FormValue req ''h'') \<noteq> Inr (hmac_sha256 (FormSecret cfg) (FormValue req ''u''))"
  shows "fst (consent userAPI cfg req (init w)) = Some internalError
    \<and> Code internalError = 500
    \<and> calls (snd (consent userAPI cfg req (init w))) =
        [Write_call ''invalid HMAC provided'' (fst (Write userAPI ''invalid HMAC provided'' w))]
    \<and> world (snd (consent userAPI cfg req (init w))) = snd (Write userAPI ''invalid HMAC provided'' w)"
proof -
  from assms(3) have "validHMAC (FormValue req ''u'') (FormValue req ''h'') (FormSecret cfg) \<noteq> (True, None)"
    by (simp add: validHMAC_iff)
  moreover obtain ok err where v: "validHMAC (FormValue req ''u'') (FormValue req ''h'') (FormSecret cfg) = (ok, err)"
    by (cases "validHMAC (FormValue req ''u'') (FormValue req ''h'') (FormSecret cfg)")
  ultimately have "err \<noteq> None \<or> \<not> ok" by auto
  with assms(1,2) v show ?thesis
    by (auto simp: consent_def consent_post_def init_def invoke_def internalError_def Let_def
             split: prod.splits option.splits)
qed

theorem post_invalid_hmac_rejected_witness:
  "Method (request ''POST'' ''@bob:example.org'' ''2'' ''zz'') = ''POST''
   \<and> DecodeString ''zz'' = Inl (InvalidByteError CHR ''z'')
   \<and> fst (consent example_api example_cfg (request ''POST'' ''@bob:example.org'' ''2'' ''zz'')
        (init (example_world [(''bob'', ''1'')] False []))) = Some internalError
   \<and> calls (snd (consent example_api example_cfg (request ''POST'' ''@bob:example.org'' ''2'' ''zz'')
        (init (example_world [(''bob'', ''1'')] False [])))) = [Write_call ''invalid HMAC provided'' None]
   \<and> accepted (world (snd (consent example_api example_cfg
        (request ''POST'' ''@bob:example.org'' ''2'' ''zz'')
        (init (example_world [(''bob'', ''1'')] False []))))) = [(''bob'', ''1'')]
   \<and> DecodeString ''00'' = Inr [CHR 0x00]
   \<and> calls (snd (consent example_api example_cfg (request ''POST'' ''@bob:example.org'' ''2'' ''00'')
        (init (example_world [(''bob'', ''1'')] False [])))) = [Write_call ''invalid HMAC provided'' None]"
proof -
  have m: "\<And>h. Method (request ''POST'' ''@bob:example.org'' ''2'' h) = ''POST''"
    and u: "\<And>h. FormValue (request ''POST'' ''@bob:example.org'' ''2'' h) ''u'' = ''@bob:example.org''"
    and h: "\<And>h. FormValue (request ''POST'' ''@bob:example.org'' ''2'' h) ''h'' = h"
    by (simp_all add: request_def)
  have s: "SplitID example_api CHR ''@'' ''@bob:example.org'' = Inr (''bob'', ''example.org'')"
    by (simp add: example_api_def)
  have z: "DecodeString ''zz'' = Inl (InvalidByteError CHR ''z'')"
    by (simp add: fromHexChar_def)
  have o: "DecodeString ''00'' = Inr [CHR 0x00]"
    by code_simp
  have o': "DecodeString ''00'' \<noteq> Inr (hmac_sha256 (FormSecret example_cfg) ''@bob:example.org'')"
  proof
    assume "DecodeString ''00'' = Inr (hmac_sha256 (FormSecret example_cfg) ''@bob:example.org'')"
    from DecodeString_length [OF this] show False
      by (simp add: length_hmac_sha256)
  qed
  have w: "Write example_api ''invalid HMAC provided'' (example_world [(''bob'', ''1'')] False [])
      = (None, (example_world [(''bob'', ''1'')] False [])\<lparr>written := ''invalid HMAC provided''\<rparr>)"
    by (simp add: example_api_def example_world_def)
  have a: "accepted ((example_world [(''bob'', ''1'')] False [])\<lparr>written := ''invalid HMAC provided''\<rparr>)
      = [(''bob'', ''1'')]"
    by (simp add: example_world_def)
  from post_invalid_hmac_rejected [of "request ''POST'' ''@bob:example.org'' ''2'' ''zz''" example_api
      "''bob''" "''example.org''" example_cfg "example_world [(''bob'', ''1'')] False []"]
    post_invalid_hmac_rejected [of "request ''POST'' ''@bob:example.org'' ''2'' ''00''" example_api
      "''bob''" "''example.org''" example_cfg "example_world [(''bob'', ''1'')] False []"]
  show ?thesis
    using s z o o' by (simp add: m u h w a)
qed

text \<open>
  The personal view of a GET request, from the data that the handler read from the form.
\<close>

lemma consent_get_personal:
  assumes "User d \<noteq> ''''" and "UserHMAC d \<noteq> ''''" and "Version d \<noteq> ''''"
    and "SplitID userAPI CHR ''@'' (User d) = Inr (localPart, domain)"
    and "QueryPolicyVersion userAPI localPart w = (Inr stored, w')"
  shows "store_calls (calls (snd (consent_get userAPI cfg d (init w)))) =
          [QueryPolicyVersion_call localPart (Inr stored)]
    \<and> renders (calls (snd (consent_get userAPI cfg d (init w)))) =
        [d\<lparr>PublicVersion := False, HasConsented := (stored = ConsentVersion cfg)\<rparr>]
    \<and> fst (consent_get userAPI cfg d (init w)) = None"
  using assms
  by (auto simp: consent_get_def init_def invoke_def log_def Let_def
           split: prod.splits option.splits)

text \<open>
  C10 (GET never verifies the signature). For a GET request with \<open>u\<close> and \<open>v\<close>
  non-empty, whose \<open>u\<close> parses and whose store read succeeds, any two non-empty values of
  \<open>h\<close> and any two secrets give the same view (\<open>PublicVersion\<close> false,
  \<open>HasConsented\<close> decided by the stored version alone), the same calls to the store and
  the same response: neither \<open>h\<close> nor the secret, the inputs of \<open>validHMAC\<close>, has an
  influence.
\<close>

theorem get_ignores_signature:
  assumes "Method req = ''GET''"
    and "FormValue req ''u'' \<noteq> ''''" and "FormValue req ''v'' \<noteq> ''''"
    and "h1 \<noteq> ''''" and "h2 \<noteq> ''''"
    and "SplitID userAPI CHR ''@'' (FormValue req ''u'') = Inr (localPart, domain)"
    and "QueryPolicyVersion userAPI localPart w = (Inr stored, w')"
  shows "map (\<lambda>d. (PublicVersion d, HasConsented d))
           (renders (calls (snd (consent userAPI (cfg\<lparr>FormSecret := k1\<rparr>)
              (req\<lparr>FormValue := (FormValue req)(''h'' := h1)\<rparr>) (init w)))))
         = [(False, stored = ConsentVersion cfg)]
    \<and> map (\<lambda>d. (PublicVersion d, HasConsented d))
           (renders (calls (snd (consent userAPI (cfg\<lparr>FormSecret := k2\<rparr>)
              (req\<lparr>FormValue := (FormValue req)(''h'' := h2)\<rparr>) (init w)))))
         = [(False, stored = ConsentVersion cfg)]
    \<and> store_calls (calls (snd (consent userAPI (cfg\<lparr>FormSecret := k1\<rparr>)
              (req\<lparr>FormValue := (FormValue req)(''h'' := h1)\<rparr>) (init w))))
       = store_calls (calls (snd (consent userAPI (cfg\<lparr>FormSecret := k2\<rparr>)
              (req\<lparr>FormValue := (FormValue req)(''h'' := h2)\<rparr>) (init w))))
    \<and> fst (consent userAPI (cfg\<lparr>FormSecret := k1\<rparr>)
              (req\<lparr>FormValue := (FormValue req)(''h'' := h1)\<rparr>) (init w))
       = fst (consent userAPI (cfg\<lparr>FormSecret := k2\<rparr>)
              (req\<lparr>FormValue := (FormValue req)(''h'' := h2)\<rparr>) (init w))"
proof -
  have p: "store_calls (calls (snd (consent userAPI (cfg\<lparr>FormSecret := k\<rparr>)
              (req\<lparr>FormValue := (FormValue req)(''h'' := h)\<rparr>) (init w))))
       = [QueryPolicyVersion_call localPart (Inr stored)]
     \<and> renders (calls (snd (consent userAPI (cfg\<lparr>FormSecret := k\<rparr>)
              (req\<lparr>FormValue := (FormValue req)(''h'' := h)\<rparr>) (init w))))
       = [\<lparr>User = FormValue req ''u'', Version = FormValue req ''v'', UserHMAC = h,
           HasConsented = (stored = ConsentVersion cfg), PublicVersion = False\<rparr>]
     \<and> fst (consent userAPI (cfg\<lparr>FormSecret := k\<rparr>)
              (req\<lparr>FormValue := (FormValue req)(''h'' := h)\<rparr>) (init w)) = None"
    if h: "h \<noteq> ''''" for k h
  proof -
    let ?d = "\<lparr>User = FormValue req ''u'', Version = FormValue req ''v'', UserHMAC = h,
           HasConsented = False, PublicVersion = False\<rparr>"
    have c: "consent userAPI (cfg\<lparr>FormSecret := k\<rparr>)
              (req\<lparr>FormValue := (FormValue req)(''h'' := h)\<rparr>) (init w)
           = consent_get userAPI (cfg\<lparr>FormSecret := k\<rparr>) ?d (init w)"
      using assms(1) by (simp add: consent_def)
    show ?thesis
      unfolding c
      using consent_get_personal [of ?d userAPI localPart domain w stored w' "cfg\<lparr>FormSecret := k\<rparr>"]
        assms(2,3,6,7) h
      by simp
  qed
  from p [of h1 k1] p [of h2 k2] assms(4,5) show ?thesis
    by simp
qed

theorem get_ignores_signature_witness:
  "Method (request ''GET'' ''@bob:example.org'' ''2'' '''') = ''GET''
   \<and> QueryPolicyVersion example_api ''bob'' (example_world [(''bob'', ''1'')] False [])
        = (Inr ''1'', example_world [(''bob'', ''1'')] False [])
   \<and> map (\<lambda>d. (PublicVersion d, HasConsented d))
        (renders (calls (snd (consent example_api (example_cfg\<lparr>FormSecret := ''s3cr3t''\<rparr>)
           (request ''GET'' ''@bob:example.org'' ''2'' ''forged'')
           (init (example_world [(''bob'', ''1'')] False []))))))
       = [(False, False)]
   \<and> map (\<lambda>d. (PublicVersion d, HasConsented d))
        (renders (calls (snd (consent example_api (example_cfg\<lparr>FormSecret := ''other''\<rparr>)
           (request ''GET'' ''@bob:example.org'' ''2''
              (EncodeToString (hmac_sha256 ''s3cr3t'' ''@bob:example.org'')))
           (init (example_world [(''bob'', ''1'')] False []))))))
       = [(False, False)]"
proof -
  have r: "\<And>h. (request ''GET'' ''@bob:example.org'' ''2'' '''')
            \<lparr>FormValue := (FormValue (request ''GET'' ''@bob:example.org'' ''2'' ''''))(''h'' := h)\<rparr>
          = request ''GET'' ''@bob:example.org'' ''2'' h"
    by (auto simp: request_def)
  have m: "Method (request ''GET'' ''@bob:example.org'' ''2'' '''') = ''GET''"
    and u: "FormValue (request ''GET'' ''@bob:example.org'' ''2'' '''') ''u'' = ''@bob:example.org''"
    and v: "FormValue (request ''GET'' ''@bob:example.org'' ''2'' '''') ''v'' = ''2''"
    by (simp_all add: request_def)
  have s: "SplitID example_api CHR ''@'' ''@bob:example.org'' = Inr (''bob'', ''example.org'')"
    by (simp add: example_api_def)
  have q: "QueryPolicyVersion example_api ''bob'' (example_world [(''bob'', ''1'')] False [])
        = (Inr ''1'', example_world [(''bob'', ''1'')] False [])"
    by (simp add: example_api_def example_world_def)
  have e: "EncodeToString (hmac_sha256 ''s3cr3t'' ''@bob:example.org'') \<noteq> ''''"
  proof
    assume "EncodeToString (hmac_sha256 ''s3cr3t'' ''@bob:example.org'') = ''''"
    then have "length (EncodeToString (hmac_sha256 ''s3cr3t'' ''@bob:example.org'')) = 0"
      by simp
    then show False
      by (simp add: length_EncodeToString length_hmac_sha256)
  qed
  have c: "ConsentVersion example_cfg = ''2''"
    by (simp add: example_cfg_def)
  from get_ignores_signature [where req = "request ''GET'' ''@bob:example.org'' ''2'' ''''"
      and ?h1.0 = "''forged''"
      and ?h2.0 = "EncodeToString (hmac_sha256 ''s3cr3t'' ''@bob:example.org'')"
      and userAPI = example_api and localPart = "''bob''" and domain = "''example.org''"
      and w = "example_world [(''bob'', ''1'')] False []" and stored = "''1''"
      and w' = "example_world [(''bob'', ''1'')] False []" and cfg = example_cfg
      and ?k1.0 = "''s3cr3t''" and ?k2.0 = "''other''"]
  show ?thesis
    using m s q e by (simp add: u v r c)
qed

subsection \<open>The signature and the version\<close>

lemma consent_get_no_rejection:
  "\<not> list_ex hmac_rejection (calls (snd (consent_get userAPI cfg d (init w))))"
  by (simp add: consent_get_def init_def invoke_def log_def Let_def
           split: prod.splits option.splits sum.splits)

lemma consent_post_rejection:
  "list_ex hmac_rejection (calls (snd (consent_post userAPI cfg d (init w))))
     \<longleftrightarrow> (\<exists>p. SplitID userAPI CHR ''@'' (User d) = Inr p)
         \<and> validHMAC (User d) (UserHMAC d) (FormSecret cfg) \<noteq> (True, None)"
proof (cases "SplitID userAPI CHR ''@'' (User d)")
  case (Inl e)
  then show ?thesis
    by (simp add: consent_post_def init_def log_def)
next
  case (Inr p)
  obtain ok err where v: "validHMAC (User d) (UserHMAC d) (FormSecret cfg) = (ok, err)"
    by (cases "validHMAC (User d) (UserHMAC d) (FormSecret cfg)")
  show ?thesis
  proof (cases "err \<noteq> None \<or> \<not> ok")
    case True
    with Inr v show ?thesis
      by (cases p) (auto simp: consent_post_def init_def invoke_def split: prod.splits option.splits)
  next
    case False
    with Inr v show ?thesis
      by (cases p)
         (simp add: consent_post_def init_def invoke_def log_def Let_def
            split: prod.splits option.splits)
  qed
qed

lemma hmac_rejection_iff:
  "list_ex hmac_rejection (calls (snd (consent userAPI cfg req (init w))))
     \<longleftrightarrow> Method req = ''POST''
         \<and> (\<exists>p. SplitID userAPI CHR ''@'' (FormValue req ''u'') = Inr p)
         \<and> validHMAC (FormValue req ''u'') (FormValue req ''h'') (FormSecret cfg) \<noteq> (True, None)"
proof -
  have "calls (init w) = []" by (simp add: init_def)
  then show ?thesis
    by (simp add: consent_def consent_get_no_rejection consent_post_rejection Let_def)
qed

text \<open>
  C9 (signature independent of the version). The MAC that \<open>buildConsentURI\<close> puts into
  the link is the same under any two versions, and the link differs only in what follows
  \<open>&v=\<close>; the result of \<open>validHMAC\<close> is the same under any two versions, and so is the
  handler's decision to reject a request for its signature, whatever the version in the
  request and in the configuration.
\<close>

theorem signature_independent_of_version:
  "userMAC (cfg\<lparr>ConsentVersion := v1\<rparr>) userID = userMAC (cfg\<lparr>ConsentVersion := v2\<rparr>) userID
   \<and> fst (buildConsentURI (cfg\<lparr>ConsentVersion := v1\<rparr>) userID) =
       BaseURL cfg @ ''/_matrix/client/consent?u='' @ userID @ ''&h='' @ userMAC cfg userID @ ''&v='' @ v1
   \<and> validHMAC userID h (FormSecret (cfg\<lparr>ConsentVersion := v1\<rparr>))
       = validHMAC userID h (FormSecret (cfg\<lparr>ConsentVersion := v2\<rparr>))
   \<and> list_ex hmac_rejection (calls (snd (consent userAPI (cfg\<lparr>ConsentVersion := v1\<rparr>)
         (req\<lparr>FormValue := (FormValue req)(''v'' := v1)\<rparr>) (init w))))
       = list_ex hmac_rejection (calls (snd (consent userAPI (cfg\<lparr>ConsentVersion := v2\<rparr>)
         (req\<lparr>FormValue := (FormValue req)(''v'' := v2)\<rparr>) (init w))))"
  by (simp add: hmac_rejection_iff userMAC_def buildConsentURI_def)

theorem signature_independent_of_version_witness:
  "userMAC (example_cfg\<lparr>ConsentVersion := ''1''\<rparr>) ''@bob:example.org''
     = userMAC (example_cfg\<lparr>ConsentVersion := ''2''\<rparr>) ''@bob:example.org''
   \<and> validHMAC ''@bob:example.org'' ''zz'' (FormSecret (example_cfg\<lparr>ConsentVersion := ''1''\<rparr>))
       = validHMAC ''@bob:example.org'' ''zz'' (FormSecret (example_cfg\<lparr>ConsentVersion := ''2''\<rparr>))"
  using signature_independent_of_version [where cfg = example_cfg and ?v1.0 = "''1''"
      and userID = "''@bob:example.org''" and ?v2.0 = "''2''" and h = "''zz''"
      and userAPI = example_api and req = "request ''POST'' ''@bob:example.org'' ''2'' ''zz''"
      and w = "example_world [(''bob'', ''1'')] False []"]
  by simp

subsection \<open>The accepted POST request\<close>

text \<open>
  C3 (POST success path), as the claim states it, fails when the store refuses the write:
  the request of \<open>@bob:example.org\<close> for version \<open>2\<close>, signed with the hexadecimal
  MAC, reaches a store whose update fails. The handler calls the store once, writes
  \<open>unable to update database\<close>, answers with the internal error and renders no view.
\<close>

theorem post_store_failure_renders_nothing:
  "validHMAC ''@bob:example.org'' (EncodeToString (hmac_sha256 ''s3cr3t'' ''@bob:example.org''))
     (FormSecret example_cfg) = (True, None)
   \<and> SplitID example_api CHR ''@'' ''@bob:example.org'' = Inr (''bob'', ''example.org'')
   \<and> renders (calls (snd (consent example_api example_cfg
        (request ''POST'' ''@bob:example.org'' ''2''
           (EncodeToString (hmac_sha256 ''s3cr3t'' ''@bob:example.org'')))
        (init (example_world [(''bob'', ''1'')] True []))))) = []
   \<and> store_calls (calls (snd (consent example_api example_cfg
        (request ''POST'' ''@bob:example.org'' ''2''
           (EncodeToString (hmac_sha256 ''s3cr3t'' ''@bob:example.org'')))
        (init (example_world [(''bob'', ''1'')] True []))))) =
        [PerformUpdatePolicyVersion_call
           \<lparr>PolicyVersion = ''2'', LocalPart = ''bob'', ServerNoticeUpdate = False\<rparr>
           (Some (Failure ''store unavailable''))]
   \<and> fst (consent example_api example_cfg
        (request ''POST'' ''@bob:example.org'' ''2''
           (EncodeToString (hmac_sha256 ''s3cr3t'' ''@bob:example.org'')))
        (init (example_world [(''bob'', ''1'')] True []))) = Some internalError"
proof -
  have v: "validHMAC ''@bob:example.org'' (EncodeToString (hmac_sha256 ''s3cr3t'' ''@bob:example.org''))
     ''s3cr3t'' = (True, None)"
    by (rule validHMAC_hex)
  have k: "FormSecret example_cfg = ''s3cr3t''"
    by (simp add: example_cfg_def)
  have s: "SplitID example_api CHR ''@'' ''@bob:example.org'' = Inr (''bob'', ''example.org'')"
    by (simp add: example_api_def)
  have p: "\<And>req. PerformUpdatePolicyVersion example_api req (example_world [(''bob'', ''1'')] True [])
      = (Some (Failure ''store unavailable''), example_world [(''bob'', ''1'')] True [])"
    by (simp add: example_api_def example_world_def)
  have w: "\<And>body w. fst (Write example_api body w) = None"
    by (simp add: example_api_def)
  show ?thesis
    using v s
    by (simp add: k p w consent_def consent_post_def request_def init_def invoke_def log_def Let_def
          split: prod.splits option.splits)
qed

text \<open>
  C3, amended: a POST request whose \<open>u\<close> parses, whose \<open>h\<close> verifies and whose store
  write succeeds performs exactly one store call, the write of the request's \<open>v\<close> for
  the local part of \<open>u\<close>, and then renders the confirmed view (\<open>PublicVersion\<close> false,
  \<open>HasConsented\<close> true).
\<close>

theorem post_success:
  assumes "Method req = ''POST''"
    and "SplitID userAPI CHR ''@'' (FormValue req ''u'') = Inr (localPart, domain)"
    and "validHMAC (FormValue req ''u'') (FormValue req ''h'') (FormSecret cfg) = (True, None)"
    and "PerformUpdatePolicyVersion userAPI
           \<lparr>PolicyVersion = FormValue req ''v'', LocalPart = localPart, ServerNoticeUpdate = False\<rparr> w
         = (None, w')"
  shows "store_calls (calls (snd (consent userAPI cfg req (init w)))) =
          [PerformUpdatePolicyVersion_call
             \<lparr>PolicyVersion = FormValue req ''v'', LocalPart = localPart, ServerNoticeUpdate = False\<rparr> None]
    \<and> renders (calls (snd (consent userAPI cfg req (init w)))) =
        [\<lparr>User = FormValue req ''u'', Version = FormValue req ''v'', UserHMAC = FormValue req ''h'',
          HasConsented = True, PublicVersion = False\<rparr>]
    \<and> take 2 (calls (snd (consent userAPI cfg req (init w)))) =
        [PerformUpdatePolicyVersion_call
           \<lparr>PolicyVersion = FormValue req ''v'', LocalPart = localPart, ServerNoticeUpdate = False\<rparr> None,
         ExecuteTemplate_call (ConsentVersion cfg @ ''.gohtml'')
           \<lparr>User = FormValue req ''u'', Version = FormValue req ''v'', UserHMAC = FormValue req ''h'',
            HasConsented = True, PublicVersion = False\<rparr>
           (fst (ExecuteTemplate userAPI (ConsentVersion cfg @ ''.gohtml'')
              \<lparr>User = FormValue req ''u'', Version = FormValue req ''v'', UserHMAC = FormValue req ''h'',
               HasConsented = True, PublicVersion = False\<rparr> w'))]"
  using assms
  by (auto simp: consent_def consent_post_def init_def invoke_def log_def Let_def
           split: prod.splits option.splits)

theorem post_success_witness:
  "Method (request ''POST'' ''@bob:example.org'' ''2''
      (EncodeToString (hmac_sha256 ''s3cr3t'' ''@bob:example.org''))) = ''POST''
   \<and> validHMAC ''@bob:example.org'' (EncodeToString (hmac_sha256 ''s3cr3t'' ''@bob:example.org''))
        (FormSecret example_cfg) = (True, None)
   \<and> PerformUpdatePolicyVersion example_api
        \<lparr>PolicyVersion = ''2'', LocalPart = ''bob'', ServerNoticeUpdate = False\<rparr>
        (example_world [(''bob'', ''1'')] False [])
      = (None, example_world [(''bob'', ''2''), (''bob'', ''1'')] False [])
   \<and> store_calls (calls (snd (consent example_api example_cfg
        (request ''POST'' ''@bob:example.org'' ''2''
           (EncodeToString (hmac_sha256 ''s3cr3t'' ''@bob:example.org'')))
        (init (example_world [(''bob'', ''1'')] False []))))) =
        [PerformUpdatePolicyVersion_call
           \<lparr>PolicyVersion = ''2'', LocalPart = ''bob'', ServerNoticeUpdate = False\<rparr> None]
   \<and> renders (calls (snd (consent example_api example_cfg
        (request ''POST'' ''@bob:example.org'' ''2''
           (EncodeToString (hmac_sha256 ''s3cr3t'' ''@bob:example.org'')))
        (init (example_world [(''bob'', ''1'')] False []))))) =
        [\<lparr>User = ''@bob:example.org'', Version = ''2'',
          UserHMAC = EncodeToString (hmac_sha256 ''s3cr3t'' ''@bob:example.org''),
          HasConsented = True, PublicVersion = False\<rparr>]"
proof -
  let ?h = "EncodeToString (hmac_sha256 ''s3cr3t'' ''@bob:example.org'')"
  have m: "Method (request ''POST'' ''@bob:example.org'' ''2'' ?h) = ''POST''"
    and u: "FormValue (request ''POST'' ''@bob:example.org'' ''2'' ?h) ''u'' = ''@bob:example.org''"
    and v: "FormValue (request ''POST'' ''@bob:example.org'' ''2'' ?h) ''v'' = ''2''"
    and h: "FormValue (request ''POST'' ''@bob:example.org'' ''2'' ?h) ''h'' = ?h"
    by (simp_all add: request_def)
  have k: "FormSecret example_cfg = ''s3cr3t''"
    by (simp add: example_cfg_def)
  have a: "validHMAC ''@bob:example.org'' ?h ''s3cr3t'' = (True, None)"
    by (rule validHMAC_hex)
  have s: "SplitID example_api CHR ''@'' ''@bob:example.org'' = Inr (''bob'', ''example.org'')"
    by (simp add: example_api_def)
  have p: "PerformUpdatePolicyVersion example_api
        \<lparr>PolicyVersion = ''2'', LocalPart = ''bob'', ServerNoticeUpdate = False\<rparr>
        (example_world [(''bob'', ''1'')] False [])
      = (None, example_world [(''bob'', ''2''), (''bob'', ''1'')] False [])"
    by (simp add: example_api_def example_world_def)
  from post_success [where req = "request ''POST'' ''@bob:example.org'' ''2'' ?h"
      and userAPI = example_api and localPart = "''bob''" and domain = "''example.org''"
      and cfg = example_cfg and w = "example_world [(''bob'', ''1'')] False []"
      and w' = "example_world [(''bob'', ''2''), (''bob'', ''1'')] False []"]
  show ?thesis
    using m s a p by (simp add: u v h k)
qed

subsection \<open>The dispatcher\<close>

lemma updates_simps [simp]:
  "updates [] = []"
  "updates (c # tr) = update_request c @ updates tr"
  "updates (tr @ tr') = updates tr @ updates tr'"
  by (simp_all add: updates_def)

lemma recorded_simps [simp]:
  "recorded [] = []"
  "recorded (c # tr) = recorded_request c @ recorded tr"
  "recorded (tr @ tr') = recorded tr @ recorded tr'"
  by (simp_all add: recorded_def)

lemma delivered_simps [simp]:
  "delivered [] = []"
  "delivered (c # tr) = delivery c @ delivered tr"
  "delivered (tr @ tr') = delivered tr @ delivered tr'"
  by (simp_all add: delivered_def)

lemma reported_simps [simp]:
  "reported [] = []"
  "reported (c # tr) = sent_report c @ reported tr"
  "reported (tr @ tr') = reported tr @ reported tr'"
  by (simp_all add: reported_def)

lemma attempted_simps [simp]:
  "attempted [] = []"
  "attempted (c # tr) = attempt c @ attempted tr"
  "attempted (tr @ tr') = attempted tr @ attempted tr'"
  by (simp_all add: attempted_def)

text \<open>
  What \<open>delivery_recorded\<close> says about the updates: one for each delivered notice, each
  with the version and the flag.
\<close>

lemma delivery_recorded_updates:
  "delivery_recorded version tr \<Longrightarrow>
     map (\<lambda>r. (PolicyVersion r, ServerNoticeUpdate r)) (updates tr)
       = replicate (length (delivered tr)) (version, True)"
  by (induction version tr rule: delivery_recorded.induct) simp_all

text \<open>One iteration of the loop.\<close>

lemma notice_user_step:
  "calls (st (notice_user userAPI cfg u v))
       = calls (st v) @ new_calls v (notice_user userAPI cfg u v)
   \<and> sentMessages (notice_user userAPI cfg u v)
       = sentMessages v + length (delivered (new_calls v (notice_user userAPI cfg u v)))
   \<and> attempted (new_calls v (notice_user userAPI cfg u v))
       = (if u = ServerNoticesLocalPart cfg then []
          else [Some (fst (buildConsentURI cfg (''@'' @ u @ '':'' @ ServerName cfg)))])
   \<and> reported (new_calls v (notice_user userAPI cfg u v)) = []
   \<and> (\<forall>rest. delivery_recorded (ConsentVersion cfg) (new_calls v (notice_user userAPI cfg u v) @ rest)
         = delivery_recorded (ConsentVersion cfg) rest)"
  by (auto simp: notice_user_def new_calls_def buildConsentURI_def invoke_def log_def Let_def
           split: prod.splits sum.splits option.splits)

lemma new_calls_trans:
  assumes "calls (st v1) = calls (st v0) @ new_calls v0 v1"
    and "calls (st v2) = calls (st v1) @ new_calls v1 v2"
  shows "new_calls v0 v2 = new_calls v0 v1 @ new_calls v1 v2"
    and "calls (st v2) = calls (st v0) @ new_calls v0 v2"
proof -
  have "calls (st v2) = calls (st v0) @ (new_calls v0 v1 @ new_calls v1 v2)"
    using assms by simp
  then show "new_calls v0 v2 = new_calls v0 v1 @ new_calls v1 v2"
    by (simp add: new_calls_def [of v0 v2])
  then show "calls (st v2) = calls (st v0) @ new_calls v0 v2"
    using assms by simp
qed

text \<open>The whole loop, from any state of its variables.\<close>

lemma notice_loop_steps:
  "calls (st (notice_loop userAPI cfg us v))
       = calls (st v) @ new_calls v (notice_loop userAPI cfg us v)
   \<and> sentMessages (notice_loop userAPI cfg us v)
       = sentMessages v + length (delivered (new_calls v (notice_loop userAPI cfg us v)))
   \<and> attempted (new_calls v (notice_loop userAPI cfg us v))
       = map (\<lambda>u. Some (fst (buildConsentURI cfg (''@'' @ u @ '':'' @ ServerName cfg))))
           (filter (\<lambda>u. u \<noteq> ServerNoticesLocalPart cfg) us)
   \<and> reported (new_calls v (notice_loop userAPI cfg us v)) = []
   \<and> (\<forall>rest. delivery_recorded (ConsentVersion cfg) (new_calls v (notice_loop userAPI cfg us v) @ rest)
         = delivery_recorded (ConsentVersion cfg) rest)"
proof (induction us arbitrary: v)
  case Nil
  show ?case by (simp add: new_calls_def)
next
  case (Cons u us)
  let ?v1 = "notice_user userAPI cfg u v"
  let ?v2 = "notice_loop userAPI cfg us ?v1"
  note s = notice_user_step [of userAPI cfg u v]
  note l = Cons.IH [of ?v1]
  have n: "new_calls v ?v2 = new_calls v ?v1 @ new_calls ?v1 ?v2"
    and c: "calls (st ?v2) = calls (st v) @ new_calls v ?v2"
    using new_calls_trans [of ?v1 v ?v2] s l by simp_all
  have sm: "sentMessages ?v2 = sentMessages v + length (delivered (new_calls v ?v2))"
    using s l by (simp add: n)
  have at: "attempted (new_calls v ?v2)
       = map (\<lambda>u. Some (fst (buildConsentURI cfg (''@'' @ u @ '':'' @ ServerName cfg))))
           (filter (\<lambda>u. u \<noteq> ServerNoticesLocalPart cfg) (u # us))"
    using s l by (simp add: n)
  have rp: "reported (new_calls v ?v2) = []"
    using s l by (simp add: n)
  have dr: "\<forall>rest. delivery_recorded (ConsentVersion cfg) (new_calls v ?v2 @ rest)
         = delivery_recorded (ConsentVersion cfg) rest"
    using s l by (simp add: n)
  from c sm at rp dr show ?case
    by simp
qed

text \<open>The trace of a dispatch whose listing of the outdated users succeeded.\<close>

lemma dispatch_trace:
  assumes "QueryOutdatedPolicy userAPI (ConsentVersion cfg) w = (Inr us, w')"
  shows "delivery_recorded (ConsentVersion cfg) (calls (sendServerNoticeForConsent userAPI cfg (init w)))
    \<and> reported (calls (sendServerNoticeForConsent userAPI cfg (init w)))
        = (if delivered (calls (sendServerNoticeForConsent userAPI cfg (init w))) = [] then []
           else [length (delivered (calls (sendServerNoticeForConsent userAPI cfg (init w))))])
    \<and> attempted (calls (sendServerNoticeForConsent userAPI cfg (init w)))
        = map (\<lambda>u. Some (fst (buildConsentURI cfg (''@'' @ u @ '':'' @ ServerName cfg))))
            (filter (\<lambda>u. u \<noteq> ServerNoticesLocalPart cfg) us)"
proof -
  define q where "q = QueryOutdatedPolicy_call (ConsentVersion cfg) (Inr us)"
  define i where
    "i = logrus_Infof ''Sending server notice to users who have not yet accepted the policy'' (length us)"
  define s2 where
    "s2 = (if length us > 0 then log i \<lparr>world = w', calls = [q]\<rparr> else \<lparr>world = w', calls = [q]\<rparr>)"
  define start where "start = \<lparr>data = Map.empty, sentMessages = 0, st = s2\<rparr>"
  define final where "final = notice_loop userAPI cfg us start"
  define n where "n = new_calls start final"
  define tr where "tr = calls (sendServerNoticeForConsent userAPI cfg (init w))"
  note l = notice_loop_steps [of userAPI cfg us start, folded final_def, folded n_def]
  have pre: "calls s2 = [q] \<or> calls s2 = [q, i]"
    by (simp add: s2_def log_def)
  have c: "calls (st final) = calls s2 @ n"
    using l by (simp add: start_def)
  have sm: "sentMessages final = length (delivered n)"
    using l by (simp add: start_def)
  have unf: "sendServerNoticeForConsent userAPI cfg (init w)
      = (if sentMessages final > 0
         then log (logrus_Infof ''Sent messages to %d users'' (sentMessages final)) (st final)
         else st final)"
    using assms
    by (simp add: sendServerNoticeForConsent_def init_def invoke_def Let_def
          final_def start_def s2_def q_def i_def)
  have t: "tr = calls s2 @ n @ (if sentMessages final > 0
                     then [logrus_Infof ''Sent messages to %d users'' (sentMessages final)] else [])"
    unfolding tr_def unf using c by (simp add: log_def)
  have d0: "delivered (calls s2) = []" and r0: "reported (calls s2) = []"
    and a0: "attempted (calls s2) = []"
    and dr0: "\<And>rest. delivery_recorded (ConsentVersion cfg) (calls s2 @ rest)
        = delivery_recorded (ConsentVersion cfg) rest"
    using pre by (auto simp: q_def i_def)
  have d: "delivered tr = delivered n"
    unfolding t by (simp add: d0)
  have r: "reported tr = (if sentMessages final > 0 then [sentMessages final] else [])"
    unfolding t using l by (simp add: r0)
  have a: "attempted tr = attempted n"
    unfolding t by (simp add: a0)
  have dr: "delivery_recorded (ConsentVersion cfg) tr"
    unfolding t using l by (simp add: dr0)
  from dr r a d sm l show ?thesis
    unfolding tr_def by auto
qed

text \<open>
  C5 (dispatcher recording and counting), as the claim states it, fails on the count: the
  counter is incremented when the notice is delivered, before the store is updated. With
  one outdated user \<open>u1\<close>, a delivery that succeeds and a store whose update fails, the
  dispatcher reports 1 although no user was both notified and recorded.
\<close>

theorem dispatch_counts_unrecorded_delivery:
  "QueryOutdatedPolicy example_api (ConsentVersion example_cfg) (example_world [(''u1'', ''1'')] True [])
     = (Inr [''u1''], example_world [(''u1'', ''1'')] True [])
   \<and> delivered (calls (sendServerNoticeForConsent example_api example_cfg
        (init (example_world [(''u1'', ''1'')] True [])))) = [''@u1:example.org'']
   \<and> recorded (calls (sendServerNoticeForConsent example_api example_cfg
        (init (example_world [(''u1'', ''1'')] True [])))) = []
   \<and> reported (calls (sendServerNoticeForConsent example_api example_cfg
        (init (example_world [(''u1'', ''1'')] True [])))) = [1]"
  by (simp add: sendServerNoticeForConsent_def notice_user_def buildConsentURI_def
        example_api_def example_cfg_def example_world_def init_def invoke_def log_def Let_def)

text \<open>
  C5, amended: in a dispatch pass whose listing succeeded, every delivered notice is
  followed at once by one update of the store that carries the current policy version and
  the notice-triggered flag, and the store is updated nowhere else, so that a user whose
  delivery fails causes no store mutation; the updates are as many as the delivered
  notices; and the count reported after the loop, reported only when it is positive, is the
  number of users to whom the notice was delivered, whether or not the update succeeded.
\<close>

theorem dispatch_records_deliveries:
  assumes "QueryOutdatedPolicy userAPI (ConsentVersion cfg) w = (Inr us, w')"
  shows "delivery_recorded (ConsentVersion cfg) (calls (sendServerNoticeForConsent userAPI cfg (init w)))
    \<and> map (\<lambda>r. (PolicyVersion r, ServerNoticeUpdate r))
          (updates (calls (sendServerNoticeForConsent userAPI cfg (init w))))
        = replicate (length (delivered (calls (sendServerNoticeForConsent userAPI cfg (init w)))))
            (ConsentVersion cfg, True)
    \<and> reported (calls (sendServerNoticeForConsent userAPI cfg (init w)))
        = (if delivered (calls (sendServerNoticeForConsent userAPI cfg (init w))) = [] then []
           else [length (delivered (calls (sendServerNoticeForConsent userAPI cfg (init w))))])"
proof -
  from dispatch_trace [OF assms]
  have dr: "delivery_recorded (ConsentVersion cfg) (calls (sendServerNoticeForConsent userAPI cfg (init w)))"
    and rp: "reported (calls (sendServerNoticeForConsent userAPI cfg (init w)))
        = (if delivered (calls (sendServerNoticeForConsent userAPI cfg (init w))) = [] then []
           else [length (delivered (calls (sendServerNoticeForConsent userAPI cfg (init w))))])"
    by simp_all
  from delivery_recorded_updates [OF dr] dr rp show ?thesis
    by simp
qed

text \<open>
  The pass of the specification's example: \<open>u1\<close>, \<open>u2\<close> and \<open>u3\<close> are outdated and the
  delivery to \<open>u2\<close> fails.
\<close>

lemma example_notice_user:
  assumes "u \<noteq> ServerNoticesLocalPart cfg"
  shows "delivered (calls (st (notice_user example_api cfg u v)))
      = delivered (calls (st v))
          @ (if ''@'' @ u @ '':'' @ ServerName cfg \<in> set (unreachable (world (st v))) then []
             else [''@'' @ u @ '':'' @ ServerName cfg])"
    and "unreachable (world (st (notice_user example_api cfg u v))) = unreachable (world (st v))"
  using assms
  by (auto simp: notice_user_def buildConsentURI_def example_api_def invoke_def log_def Let_def
           split: prod.splits sum.splits option.splits)

lemma example_pass_delivered:
  "delivered (calls (sendServerNoticeForConsent example_api example_cfg
     (init (example_world [(''u1'', ''1''), (''u2'', ''1''), (''u3'', ''1'')] False [''@u2:example.org'']))))
   = [''@u1:example.org'', ''@u3:example.org'']"
proof -
  have q: "QueryOutdatedPolicy example_api ''2''
     (example_world [(''u1'', ''1''), (''u2'', ''1''), (''u3'', ''1'')] False [''@u2:example.org''])
     = (Inr [''u1'', ''u2'', ''u3''],
        example_world [(''u1'', ''1''), (''u2'', ''1''), (''u3'', ''1'')] False [''@u2:example.org''])"
    by (simp add: example_api_def example_world_def)
  have c: "ConsentVersion example_cfg = ''2''" and n: "ServerName example_cfg = ''example.org''"
    and p: "ServerNoticesLocalPart example_cfg = ''_server''"
    by (simp_all add: example_cfg_def)
  have u: "unreachable (example_world [(''u1'', ''1''), (''u2'', ''1''), (''u3'', ''1'')] False
      [''@u2:example.org'']) = [''@u2:example.org'']"
    by (simp add: example_world_def)
  show ?thesis
    by (simp add: sendServerNoticeForConsent_def init_def invoke_def log_def Let_def
          q c n p u example_notice_user)
qed

theorem dispatch_records_deliveries_witness:
  "QueryOutdatedPolicy example_api (ConsentVersion example_cfg)
     (example_world [(''u1'', ''1''), (''u2'', ''1''), (''u3'', ''1'')] False [''@u2:example.org''])
     = (Inr [''u1'', ''u2'', ''u3''],
        example_world [(''u1'', ''1''), (''u2'', ''1''), (''u3'', ''1'')] False [''@u2:example.org''])
   \<and> delivered (calls (sendServerNoticeForConsent example_api example_cfg
        (init (example_world [(''u1'', ''1''), (''u2'', ''1''), (''u3'', ''1'')] False [''@u2:example.org'']))))
       = [''@u1:example.org'', ''@u3:example.org'']
   \<and> delivery_recorded ''2'' (calls (sendServerNoticeForConsent example_api example_cfg
        (init (example_world [(''u1'', ''1''), (''u2'', ''1''), (''u3'', ''1'')] False [''@u2:example.org'']))))
   \<and> map (\<lambda>r. (PolicyVersion r, ServerNoticeUpdate r))
        (updates (calls (sendServerNoticeForConsent example_api example_cfg
        (init (example_world [(''u1'', ''1''), (''u2'', ''1''), (''u3'', ''1'')] False [''@u2:example.org''])))))
       = [(''2'', True), (''2'', True)]
   \<and> reported (calls (sendServerNoticeForConsent example_api example_cfg
        (init (example_world [(''u1'', ''1''), (''u2'', ''1''), (''u3'', ''1'')] False [''@u2:example.org'']))))
       = [2]"
proof -
  have q: "QueryOutdatedPolicy example_api (ConsentVersion example_cfg)
     (example_world [(''u1'', ''1''), (''u2'', ''1''), (''u3'', ''1'')] False [''@u2:example.org''])
     = (Inr [''u1'', ''u2'', ''u3''],
        example_world [(''u1'', ''1''), (''u2'', ''1''), (''u3'', ''1'')] False [''@u2:example.org''])"
    by (simp add: example_api_def example_cfg_def example_world_def)
  have c: "ConsentVersion example_cfg = ''2''"
    by (simp add: example_cfg_def)
  have two: "replicate 2 (''2'', True) = [(''2'', True), (''2'', True)]"
    by (simp add: numeral_2_eq_2)
  from dispatch_records_deliveries [OF q] q show ?thesis
    by (simp add: example_pass_delivered c two)
qed

text \<open>
  C8 (dispatcher failure policy). When the listing of the outdated users fails, the
  dispatcher stops after it: the trace holds the failed query and the error log, and no
  user is processed. When the listing succeeds, the dispatcher starts the notice of every
  listed user but the notice sender, in the order of the list, whatever the collaborators
  answer for the users before: no failure for one user ends the loop.
\<close>

theorem dispatch_failure_policy:
  "(QueryOutdatedPolicy userAPI (ConsentVersion cfg) w = (Inl e, w') \<longrightarrow>
      sendServerNoticeForConsent userAPI cfg (init w) =
        \<lparr>world = w',
         calls = [QueryOutdatedPolicy_call (ConsentVersion cfg) (Inl e),
                  logrus_Error ''unable to fetch users with outdated consent policy'']\<rparr>)
   \<and> (QueryOutdatedPolicy userAPI (ConsentVersion cfg) w = (Inr us, w') \<longrightarrow>
      attempted (calls (sendServerNoticeForConsent userAPI cfg (init w)))
        = map (\<lambda>u. Some (fst (buildConsentURI cfg (''@'' @ u @ '':'' @ ServerName cfg))))
            (filter (\<lambda>u. u \<noteq> ServerNoticesLocalPart cfg) us))"
proof (intro conjI impI)
  assume "QueryOutdatedPolicy userAPI (ConsentVersion cfg) w = (Inl e, w')"
  then show "sendServerNoticeForConsent userAPI cfg (init w) =
        \<lparr>world = w',
         calls = [QueryOutdatedPolicy_call (ConsentVersion cfg) (Inl e),
                  logrus_Error ''unable to fetch users with outdated consent policy'']\<rparr>"
    by (simp add: sendServerNoticeForConsent_def init_def invoke_def log_def)
next
  assume "QueryOutdatedPolicy userAPI (ConsentVersion cfg) w = (Inr us, w')"
  from dispatch_trace [OF this]
  show "attempted (calls (sendServerNoticeForConsent userAPI cfg (init w)))
        = map (\<lambda>u. Some (fst (buildConsentURI cfg (''@'' @ u @ '':'' @ ServerName cfg))))
            (filter (\<lambda>u. u \<noteq> ServerNoticesLocalPart cfg) us)"
    by simp
qed

theorem dispatch_failure_policy_witness:
  "QueryOutdatedPolicy failing_api (ConsentVersion example_cfg) (example_world [(''u1'', ''1'')] False [])
     = (Inl (Failure ''store unavailable''), example_world [(''u1'', ''1'')] False [])
   \<and> calls (sendServerNoticeForConsent failing_api example_cfg
        (init (example_world [(''u1'', ''1'')] False [])))
       = [QueryOutdatedPolicy_call ''2'' (Inl (Failure ''store unavailable'')),
          logrus_Error ''unable to fetch users with outdated consent policy'']
   \<and> QueryOutdatedPolicy example_api (ConsentVersion example_cfg)
        (example_world [(''u1'', ''1''), (''_server'', ''1''), (''u2'', ''1''), (''u3'', ''1'')] True
           [''@u2:example.org''])
     = (Inr [''u1'', ''_server'', ''u2'', ''u3''],
        example_world [(''u1'', ''1''), (''_server'', ''1''), (''u2'', ''1''), (''u3'', ''1'')] True
           [''@u2:example.org''])
   \<and> attempted (calls (sendServerNoticeForConsent example_api example_cfg
        (init (example_world [(''u1'', ''1''), (''_server'', ''1''), (''u2'', ''1''), (''u3'', ''1'')] True
           [''@u2:example.org'']))))
       = [Some (fst (buildConsentURI example_cfg ''@u1:example.org'')),
          Some (fst (buildConsentURI example_cfg ''@u2:example.org'')),
          Some (fst (buildConsentURI example_cfg ''@u3:example.org''))]"
proof -
  have f: "QueryOutdatedPolicy failing_api (ConsentVersion example_cfg)
      (example_world [(''u1'', ''1'')] False [])
     = (Inl (Failure ''store unavailable''), example_world [(''u1'', ''1'')] False [])"
    by (simp add: failing_api_def)
  have q: "QueryOutdatedPolicy example_api (ConsentVersion example_cfg)
        (example_world [(''u1'', ''1''), (''_server'', ''1''), (''u2'', ''1''), (''u3'', ''1'')] True
           [''@u2:example.org''])
     = (Inr [''u1'', ''_server'', ''u2'', ''u3''],
        example_world [(''u1'', ''1''), (''_server'', ''1''), (''u2'', ''1''), (''u3'', ''1'')] True
           [''@u2:example.org''])"
    by (simp add: example_api_def example_cfg_def example_world_def)
  have c: "ConsentVersion example_cfg = ''2''" and n: "ServerName example_cfg = ''example.org''"
    and p: "ServerNoticesLocalPart example_cfg = ''_server''"
    by (simp_all add: example_cfg_def)
  from dispatch_failure_policy [where userAPI = failing_api and cfg = example_cfg
      and w = "example_world [(''u1'', ''1'')] False []" and e = "Failure ''store unavailable''"
      and w' = "example_world [(''u1'', ''1'')] False []"]
    dispatch_failure_policy [where userAPI = example_api and cfg = example_cfg
      and w = "example_world [(''u1'', ''1''), (''_server'', ''1''), (''u2'', ''1''), (''u3'', ''1'')] True
           [''@u2:example.org'']"
      and us = "[''u1'', ''_server'', ''u2'', ''u3'']"
      and w' = "example_world [(''u1'', ''1''), (''_server'', ''1''), (''u2'', ''1''), (''u3'', ''1'')] True
           [''@u2:example.org'']"]
  show ?thesis
    using f q by (simp add: c n p)
qed

end
